theory Spec2Isabelle
  imports
    Main
    "HOL-Library.Char_ord"
    "HOL-Library.List_Lexorder"
    "HOL-Library.Product_Lexorder"
begin

section \<open>The ticket table\<close>

text \<open>
  The program is one Streamlit script, \<^verbatim>\<open>streamlit_pg_08.py\<close>. It keeps the whole inventory in
  a pandas data frame \<^verbatim>\<open>tickets\<close> (one row per ticket) and a second frame \<^verbatim>\<open>menu\<close>.
  A data frame is modelled as the list of its rows, in index order (the frames come from
  \<^verbatim>\<open>pd.read_sql\<close>, so the index is \<open>0, 1, 2, ...\<close> and a label is a position).

  A cell that pandas reads as null (SQL NULL, \<^verbatim>\<open>None\<close>, \<^verbatim>\<open>NaN\<close>) is \<open>None\<close>.
  Numeric columns hold integers: counts of seats and display positions. Fractional
  floating-point values are outside the model.
\<close>

text \<open>A cell of a column whose type the script does not trust: null, a number, or text.\<close>

datatype cell = CNull | CNum int | CText string

text \<open>A row of \<^verbatim>\<open>SELECT * FROM tickets\<close>, before \<^verbatim>\<open>load_all_data\<close> normalises it.\<close>

record raw_ticket =
  raw_TicketID :: cell
  raw_Type :: "string option"
  raw_Category :: "string option"
  raw_Admit :: cell
  raw_Seq :: cell
  raw_Sold :: "bool option"
  raw_Customer :: "string option"
  raw_Visited :: "bool option"
  raw_Visitor_Seats :: "int option"
  raw_Timestamp :: "string option"

text \<open>
  A row of \<^verbatim>\<open>tickets\<close> as \<^verbatim>\<open>load_all_data\<close> returns it. \<open>Seq\<close> stays nullable
  (\<^verbatim>\<open>pd.to_numeric(..., errors="coerce")\<close> with no \<^verbatim>\<open>fillna\<close>), and so do \<open>Type\<close>,
  \<open>Category\<close> and \<open>Timestamp\<close>, which the loader does not touch.
\<close>

record ticket =
  TicketID :: string
  Type :: "string option"
  Category :: "string option"
  Admit :: int
  Seq :: "int option"
  Sold :: bool
  Customer :: string
  Visited :: bool
  Visitor_Seats :: int
  Timestamp :: "string option"

text \<open>A row of \<^verbatim>\<open>menu\<close>: only its \<open>Type\<close> and \<open>Category\<close> columns are read here.\<close>

record menu_entry =
  m_Type :: "string option"
  m_Category :: "string option"

section \<open>Loading: \<^verbatim>\<open>load_all_data\<close>\<close>

text \<open>\<^verbatim>\<open>Series.fillna(d)\<close>: a null cell becomes \<open>d\<close>, any other cell is kept.\<close>

definition fillna :: "'a \<Rightarrow> 'a option \<Rightarrow> 'a" where
  "fillna d v = (case v of None \<Rightarrow> d | Some x \<Rightarrow> x)"

text \<open>
  \<^verbatim>\<open>pd.to_numeric(col, errors="coerce")\<close>: a number is kept, null stays null, and text is
  parsed; text that is not a number becomes null. The parser of numeric text belongs to
  pandas, so it is the parameter \<open>parse\<close>.
\<close>

definition to_numeric :: "(string \<Rightarrow> int option) \<Rightarrow> cell \<Rightarrow> int option" where
  "to_numeric parse c = (case c of CNull \<Rightarrow> None | CNum n \<Rightarrow> Some n | CText s \<Rightarrow> parse s)"

text \<open>Python's \<^verbatim>\<open>str\<close> on a natural number and on an integer: decimal digits.\<close>

fun str_nat :: "nat \<Rightarrow> string" where
  "str_nat n =
     (if n < 10 then [char_of (48 + n)]
      else str_nat (n div 10) @ [char_of (48 + n mod 10)])"

declare str_nat.simps [simp del]

definition str_int :: "int \<Rightarrow> string" where
  "str_int i = (if i < 0 then CHR ''-'' # str_nat (nat (- i)) else str_nat (nat i))"

text \<open>\<^verbatim>\<open>.astype(str)\<close> on a cell: \<^verbatim>\<open>str(None)\<close> is the text \<^verbatim>\<open>None\<close>.\<close>

definition astype_str :: "cell \<Rightarrow> string" where
  "astype_str c = (case c of CNull \<Rightarrow> ''None'' | CNum n \<Rightarrow> str_int n | CText s \<Rightarrow> s)"

text \<open>
  \<^verbatim>\<open>.str.zfill(width)\<close>: pad with \<^verbatim>\<open>0\<close> on the left up to \<open>width\<close> characters; a
  leading sign stays in front of the padding, as Python's \<^verbatim>\<open>str.zfill\<close> has it.
\<close>

definition zfill :: "nat \<Rightarrow> string \<Rightarrow> string" where
  "zfill width s =
     (if width \<le> length s then s
      else (case s of
              [] \<Rightarrow> replicate width (CHR ''0'')
            | c # rest \<Rightarrow>
                if c = CHR ''+'' \<or> c = CHR ''-''
                then c # replicate (width - length s) (CHR ''0'') @ rest
                else replicate (width - length s) (CHR ''0'') @ s))"

text \<open>The seven assignments of \<^verbatim>\<open>load_all_data\<close> (lines 52 to 58), on one row.\<close>

definition normalize_row :: "(string \<Rightarrow> int option) \<Rightarrow> raw_ticket \<Rightarrow> ticket" where
  "normalize_row parse r =
     \<lparr> TicketID = zfill 4 (astype_str (raw_TicketID r)),
       Type = raw_Type r,
       Category = raw_Category r,
       Admit = fillna 1 (to_numeric parse (raw_Admit r)),
       Seq = to_numeric parse (raw_Seq r),
       Sold = fillna False (raw_Sold r),
       Customer = fillna [] (raw_Customer r),
       Visited = fillna False (raw_Visited r),
       Visitor_Seats = fillna 0 (raw_Visitor_Seats r),
       Timestamp = raw_Timestamp r \<rparr>"

definition load_all_data ::
  "(string \<Rightarrow> int option) \<Rightarrow> raw_ticket list \<times> menu_entry list \<Rightarrow> ticket list \<times> menu_entry list" where
  "load_all_data parse db = (map (normalize_row parse) (fst db), snd db)"

section \<open>The invariants of the data model\<close>

text \<open>I1: an unsold ticket has no customer, no visit, no used seats and no sale time.\<close>

definition I1 :: "ticket \<Rightarrow> bool" where
  "I1 t = (\<not> Sold t \<longrightarrow>
     Customer t = [] \<and> \<not> Visited t \<and> Visitor_Seats t = 0 \<and> Timestamp t = None)"

text \<open>I2: ticket identifiers are unique. I3: a ticket admits at least one seat.\<close>

definition I2 :: "ticket list \<Rightarrow> bool" where
  "I2 tickets = distinct (map TicketID tickets)"

definition I3 :: "ticket \<Rightarrow> bool" where
  "I3 t = (1 \<le> Admit t)"

text \<open>The unsold baseline: the five fields a reversal or a reset writes.\<close>

definition baseline :: "ticket \<Rightarrow> bool" where
  "baseline t =
     (\<not> Sold t \<and> Customer t = [] \<and> \<not> Visited t \<and> Visitor_Seats t = 0 \<and> Timestamp t = None)"

section \<open>The handlers of the sidebar and of the Sales tab\<close>

text \<open>
  A handler either writes the table or leaves it alone. It returns \<open>Inr\<close> of the table it
  saved with \<^verbatim>\<open>save_tickets_df\<close>, or \<open>Inl\<close> of the reason why nothing was written:
  \<^item> \<open>IncorrectAdminPassword\<close>: \<^verbatim>\<open>st.error("Incorrect Admin Password")\<close>;
  \<^item> \<open>NoAvailableTickets\<close>: \<^verbatim>\<open>st.info("No available tickets in this category.")\<close>;
  \<^item> \<open>NoSoldTickets\<close>: \<^verbatim>\<open>st.info("No sold tickets to reverse in this category.")\<close>;
  \<^item> \<open>NotAnOption\<close>: the value is not among the options of its radio button or select
    box, so the form cannot be submitted with it;
  \<^item> \<open>IndexError\<close>: \<^verbatim>\<open>tickets.index[...][0]\<close> on an empty index.
\<close>

datatype rejection =
  IncorrectAdminPassword | NoAvailableTickets | NoSoldTickets | NotAnOption | IndexError

text \<open>The table the session holds after a handler ran.\<close>

definition state_after :: "ticket list \<Rightarrow> 'e + ticket list \<Rightarrow> ticket list" where
  "state_after tickets r = (case r of Inl e \<Rightarrow> tickets | Inr tickets' \<Rightarrow> tickets')"

text \<open>
  \<^verbatim>\<open>column == x\<close> in pandas, on one cell: a null on either side compares unequal.
\<close>

definition cell_eq :: "'a option \<Rightarrow> 'a option \<Rightarrow> bool" where
  "cell_eq a b = (a \<noteq> None \<and> b \<noteq> None \<and> a = b)"

text \<open>\<^verbatim>\<open>menu[menu["Type"] == s_type]["Category"]\<close>: the options of the category box.\<close>

definition menu_categories :: "menu_entry list \<Rightarrow> string \<Rightarrow> string option list" where
  "menu_categories menu s_type =
     map m_Category (filter (\<lambda>m. cell_eq (m_Type m) (Some s_type)) menu)"

text \<open>
  \<^verbatim>\<open>st.selectbox(label, options)\<close> yields one of its options, and \<^verbatim>\<open>None\<close> when there
  is none.
\<close>

definition selectbox :: "'a option list \<Rightarrow> 'a option \<Rightarrow> bool" where
  "selectbox options v = (if options = [] then v = None else v \<in> set options)"

text \<open>\<^verbatim>\<open>tickets.index[tickets["TicketID"] == tid][0]\<close>: the first row with that identifier.\<close>

fun first_index :: "ticket list \<Rightarrow> string \<Rightarrow> nat option" where
  "first_index [] tid = None"
| "first_index (t # ts) tid =
     (if TicketID t = tid then Some 0 else map_option Suc (first_index ts tid))"

subsection \<open>Reset Database (lines 109 to 121)\<close>

definition reset_database :: "ticket list \<Rightarrow> string \<Rightarrow> rejection + ticket list" where
  "reset_database tickets admin_pass_input =
     (if admin_pass_input = ''admin123''
      then Inr (map (\<lambda>t. t\<lparr> Sold := False, Visited := False, Customer := [],
                              Visitor_Seats := 0, Timestamp := None \<rparr>) tickets)
      else Inl IncorrectAdminPassword)"

subsection \<open>Manual sale (lines 194 to 222)\<close>

definition avail :: "ticket list \<Rightarrow> string \<Rightarrow> string option \<Rightarrow> string list" where
  "avail tickets s_type s_cat =
     map TicketID
       (filter (\<lambda>t. cell_eq (Type t) (Some s_type) \<and> cell_eq (Category t) s_cat \<and> \<not> Sold t)
          tickets)"

text \<open>
  \<open>s_type\<close>, \<open>s_cat\<close>, \<open>tid\<close> and \<open>cust\<close> are what the widgets hold when
  \<^verbatim>\<open>Confirm Sale\<close> is pressed, \<open>now\<close> is \<^verbatim>\<open>str(pd.Timestamp.now())\<close>.
\<close>

definition manual_sale ::
  "menu_entry list \<Rightarrow> ticket list \<Rightarrow> string \<Rightarrow> string option \<Rightarrow> string \<Rightarrow> string \<Rightarrow> string
     \<Rightarrow> rejection + ticket list" where
  "manual_sale menu tickets s_type s_cat tid cust now =
     (if s_type \<notin> set [''Public'', ''Guest''] then Inl NotAnOption
      else if \<not> selectbox (menu_categories menu s_type) s_cat then Inl NotAnOption
      else if avail tickets s_type s_cat = [] then Inl NoAvailableTickets
      else if tid \<notin> set (avail tickets s_type s_cat) then Inl NotAnOption
      else (case first_index tickets tid of
              None \<Rightarrow> Inl IndexError
            | Some idx \<Rightarrow>
                Inr (tickets[idx := (tickets ! idx)
                       \<lparr> Sold := True, Customer := cust, Timestamp := Some now \<rparr>])))"

subsection \<open>Reverse sale (lines 225 to 255)\<close>

definition sold_tickets :: "ticket list \<Rightarrow> string \<Rightarrow> string option \<Rightarrow> string list" where
  "sold_tickets tickets r_type r_cat =
     map TicketID
       (filter (\<lambda>t. cell_eq (Type t) (Some r_type) \<and> cell_eq (Category t) r_cat \<and> Sold t)
          tickets)"

definition reverse_sale ::
  "menu_entry list \<Rightarrow> ticket list \<Rightarrow> string \<Rightarrow> string option \<Rightarrow> string
     \<Rightarrow> rejection + ticket list" where
  "reverse_sale menu tickets r_type r_cat tid =
     (if r_type \<notin> set [''Public'', ''Guest''] then Inl NotAnOption
      else if \<not> selectbox (menu_categories menu r_type) r_cat then Inl NotAnOption
      else if sold_tickets tickets r_type r_cat = [] then Inl NoSoldTickets
      else if tid \<notin> set (sold_tickets tickets r_type r_cat) then Inl NotAnOption
      else (case first_index tickets tid of
              None \<Rightarrow> Inl IndexError
            | Some idx \<Rightarrow>
                Inr (tickets[idx := (tickets ! idx)
                       \<lparr> Sold := False, Customer := [], Visited := False,
                         Visitor_Seats := 0, Timestamp := None \<rparr>])))"

section \<open>Visitor check-in\<close>

text \<open>
  Modelled from the spec: the errors of check-in. The source file stops at the head of the
  Visitors tab (line 283), so the check-in handler is not in it; section 4.2 of the
  specification names the two ways it fails.
\<close>

datatype checkin_error = NotFound | NotSold

text \<open>
  Modelled from the spec: the check-in handler of the Visitors tab, which the source file
  does not contain. Section 4.2 of the specification: check-in fails with \<open>NotFound\<close> if
  the ticket is absent and with \<open>NotSold\<close> if it is not sold; on success it sets
  \<open>Visited\<close> to true and \<open>Visitor_Seats\<close> to the seats used, also on a ticket that was
  checked in before. The ticket is looked up as the sale and the reversal look it up.
\<close>

definition check_in :: "ticket list \<Rightarrow> string \<Rightarrow> int \<Rightarrow> checkin_error + ticket list" where
  "check_in tickets tid seatsUsed =
     (case first_index tickets tid of
        None \<Rightarrow> Inl NotFound
      | Some idx \<Rightarrow>
          if \<not> Sold (tickets ! idx) then Inl NotSold
          else Inr (tickets[idx := (tickets ! idx)
                      \<lparr> Visited := True, Visitor_Seats := seatsUsed \<rparr>]))"

section \<open>The dashboard summary (lines 134 to 170)\<close>

text \<open>
  A row of \<^verbatim>\<open>summary\<close>: the four group keys and the eight computed columns. The keys of
  a group are never null, see \<open>group_key\<close>.
\<close>

record summary_row =
  s_Seq :: int
  s_Type :: string
  s_Category :: string
  s_Admit :: int
  Total_Tickets :: int
  Tickets_Sold :: int
  Total_Seats :: int
  Seats_sold :: int
  Total_Visitors :: int
  Balance_Tickets :: int
  Balance_Seats :: int
  Balance_Visitors :: int

type_synonym group_keys = "int \<times> string \<times> string \<times> int"

definition row_keys :: "summary_row \<Rightarrow> group_keys" where
  "row_keys r = (s_Seq r, s_Type r, s_Category r, s_Admit r)"

text \<open>
  \<^verbatim>\<open>df.groupby(["Seq", "Type", "Category", "Admit"])\<close> keeps the default
  \<^verbatim>\<open>dropna=True\<close>: a row with a null in one of the key columns belongs to no group.
  \<open>Admit\<close> is never null after loading.
\<close>

definition group_key :: "ticket \<Rightarrow> group_keys option" where
  "group_key t =
     (case Seq t of
        None \<Rightarrow> None
      | Some s \<Rightarrow>
          (case Type t of
             None \<Rightarrow> None
           | Some ty \<Rightarrow>
               (case Category t of
                  None \<Rightarrow> None
                | Some c \<Rightarrow> Some (s, ty, c, Admit t))))"

text \<open>The groups, in the order \<^verbatim>\<open>groupby\<close> emits them (default \<^verbatim>\<open>sort=True\<close>).\<close>

definition group_keys_of :: "ticket list \<Rightarrow> group_keys list" where
  "group_keys_of df = sort (remdups (List.map_filter group_key df))"

definition group_rows :: "ticket list \<Rightarrow> group_keys \<Rightarrow> ticket list" where
  "group_rows df k = filter (\<lambda>t. group_key t = Some k) df"

text \<open>
  \<^verbatim>\<open>.agg(Total_Tickets=("TicketID", "count"), Tickets_Sold=("Sold", "sum"),\<close>
  \<^verbatim>\<open>Total_Visitors=("Visitor_Seats", "sum"))\<close> on one group, then lines 146 to 150.
  \<open>TicketID\<close> is never null after loading, so \<^verbatim>\<open>count\<close> counts every row of the group;
  the sum of a Boolean column counts its true cells.
\<close>

definition count_col :: "ticket list \<Rightarrow> int" where
  "count_col g = int (length g)"

definition sum_bool :: "(ticket \<Rightarrow> bool) \<Rightarrow> ticket list \<Rightarrow> int" where
  "sum_bool col g = sum_list (map (\<lambda>t. if col t then 1 else 0) g)"

definition sum_col :: "(ticket \<Rightarrow> int) \<Rightarrow> ticket list \<Rightarrow> int" where
  "sum_col col g = sum_list (map col g)"

definition summary_of_group :: "group_keys \<Rightarrow> ticket list \<Rightarrow> summary_row" where
  "summary_of_group k g =
     (case k of (seq, ty, cat, admit) \<Rightarrow>
        let total_tickets = count_col g;
            tickets_sold = sum_bool Sold g;
            total_visitors = sum_col Visitor_Seats g;
            total_seats = total_tickets * admit;
            seats_sold = tickets_sold * admit
        in \<lparr> s_Seq = seq, s_Type = ty, s_Category = cat, s_Admit = admit,
             Total_Tickets = total_tickets,
             Tickets_Sold = tickets_sold,
             Total_Seats = total_seats,
             Seats_sold = seats_sold,
             Total_Visitors = total_visitors,
             Balance_Tickets = total_tickets - tickets_sold,
             Balance_Seats = total_seats - seats_sold,
             Balance_Visitors = seats_sold - total_visitors \<rparr>)"

text \<open>
  \<^verbatim>\<open>custom_sort\<close>, on the summary. The frame has a \<open>Seq\<close> column, so the early
  \<^verbatim>\<open>return df\<close> is not taken. The column is numeric and has no null, so of the test
  \<^verbatim>\<open>x in [0, "0", None]\<close> only the comparison with \<open>0\<close> can succeed, and
  \<^verbatim>\<open>int(x)\<close> is \<open>x\<close>. \<^verbatim>\<open>sort_values\<close> orders the rows by the key and the key
  column is dropped again; the order it gives to rows with equal keys is not relied upon
  below (here: the order they had).
\<close>

definition seq_sort_key :: "int \<Rightarrow> int" where
  "seq_sort_key x = (if x = 0 then 10 else x)"

definition custom_sort :: "summary_row list \<Rightarrow> summary_row list" where
  "custom_sort df = sort_key (\<lambda>r. seq_sort_key (s_Seq r)) df"

definition summary :: "ticket list \<Rightarrow> summary_row list" where
  "summary df =
     custom_sort (map (\<lambda>k. summary_of_group k (group_rows df k)) (group_keys_of df))"

text \<open>
  \<^verbatim>\<open>summary_final\<close>: the sorted rows, then one row of column sums whose \<open>Seq\<close> cell is
  the text \<^verbatim>\<open>Total\<close> and whose \<open>Type\<close> and \<open>Category\<close> cells are empty. No row is
  dropped by \<^verbatim>\<open>dropna(how="all")\<close>: every row has a count.
\<close>

record totals_row =
  t_Admit :: int
  t_Total_Tickets :: int
  t_Tickets_Sold :: int
  t_Total_Seats :: int
  t_Seats_sold :: int
  t_Total_Visitors :: int
  t_Balance_Tickets :: int
  t_Balance_Seats :: int
  t_Balance_Visitors :: int

datatype final_row = GroupRow summary_row | TotalRow totals_row

definition totals :: "summary_row list \<Rightarrow> totals_row" where
  "totals rows =
     \<lparr> t_Admit = sum_list (map s_Admit rows),
       t_Total_Tickets = sum_list (map Total_Tickets rows),
       t_Tickets_Sold = sum_list (map Tickets_Sold rows),
       t_Total_Seats = sum_list (map Total_Seats rows),
       t_Seats_sold = sum_list (map Seats_sold rows),
       t_Total_Visitors = sum_list (map Total_Visitors rows),
       t_Balance_Tickets = sum_list (map Balance_Tickets rows),
       t_Balance_Seats = sum_list (map Balance_Seats rows),
       t_Balance_Visitors = sum_list (map Balance_Visitors rows) \<rparr>"

definition summary_final :: "ticket list \<Rightarrow> final_row list" where
  "summary_final df = map GroupRow (summary df) @ [TotalRow (totals (summary df))]"

text \<open>The rows of the final summary other than the total row.\<close>

fun non_total_rows :: "final_row list \<Rightarrow> summary_row list" where
  "non_total_rows [] = []"
| "non_total_rows (GroupRow r # rows) = r # non_total_rows rows"
| "non_total_rows (TotalRow t # rows) = non_total_rows rows"

section \<open>Sample data\<close>

text \<open>The inventory of the specification's scenario: two unsold Public/GA tickets.\<close>

definition ticket_0001 :: ticket where
  "ticket_0001 =
     \<lparr> TicketID = ''0001'', Type = Some ''Public'', Category = Some ''GA'', Admit = 2,
       Seq = Some 1, Sold = False, Customer = [], Visited = False, Visitor_Seats = 0,
       Timestamp = None \<rparr>"

definition ticket_0002 :: ticket where
  "ticket_0002 = ticket_0001 \<lparr> TicketID := ''0002'' \<rparr>"

definition inventory :: "ticket list" where
  "inventory = [ticket_0001, ticket_0002]"

text \<open>The same inventory after ticket 0001 was sold to Bob.\<close>

definition sold_inventory :: "ticket list" where
  "sold_inventory =
     [ticket_0001 \<lparr> Sold := True, Customer := ''Bob'', Timestamp := Some ''2024-05-01 10:00:00'' \<rparr>,
      ticket_0002]"

definition sample_menu :: "menu_entry list" where
  "sample_menu = [\<lparr> m_Type = Some ''Public'', m_Category = Some ''GA'' \<rparr>]"

text \<open>A copy of ticket 0001 with another identifier and another \<open>Seq\<close> cell.\<close>

definition ticket_seq :: "string \<Rightarrow> int option \<Rightarrow> ticket" where
  "ticket_seq tid s = ticket_0001 \<lparr> TicketID := tid, Seq := s \<rparr>"

text \<open>
  Rows as the database may hold them: ticket 0001 before loading, and four variants whose
  \<open>Admit\<close> cell is null, text that is no number, text that is a number, and the number 0.
  \<open>sample_parse\<close> reads the one numeric text that occurs.
\<close>

definition raw_0001 :: raw_ticket where
  "raw_0001 =
     \<lparr> raw_TicketID = CNum 1, raw_Type = Some ''Public'', raw_Category = Some ''GA'',
       raw_Admit = CNum 2, raw_Seq = CNum 1, raw_Sold = None, raw_Customer = None,
       raw_Visited = None, raw_Visitor_Seats = None, raw_Timestamp = None \<rparr>"

definition raw_rows :: "raw_ticket list" where
  "raw_rows =
     [raw_0001 \<lparr> raw_Admit := CNull \<rparr>,
      raw_0001 \<lparr> raw_TicketID := CNum 2, raw_Admit := CText ''two'' \<rparr>,
      raw_0001 \<lparr> raw_TicketID := CNum 3, raw_Admit := CText ''3'' \<rparr>,
      raw_0001 \<lparr> raw_TicketID := CNum 4, raw_Admit := CNum 0 \<rparr>]"

definition sample_parse :: "string \<Rightarrow> int option" where
  "sample_parse s = (if s = ''3'' then Some 3 else None)"

section \<open>Facts about the building blocks\<close>

lemmas sample_defs =
  sold_inventory_def inventory_def ticket_0001_def ticket_0002_def sample_menu_def

lemmas handler_defs =
  manual_sale_def reverse_sale_def avail_def sold_tickets_def
  menu_categories_def selectbox_def cell_eq_def

subsection \<open>The first row with a given identifier\<close>

lemma first_index_Some:
  "first_index ts tid = Some i \<Longrightarrow>
     i < length ts \<and> TicketID (ts ! i) = tid \<and> (\<forall>j<i. TicketID (ts ! j) \<noteq> tid)"
proof (induction ts arbitrary: i)
  case Nil
  then show ?case by simp
next
  case (Cons t ts)
  show ?case
  proof (cases "TicketID t = tid")
    case True
    with Cons.prems show ?thesis by simp
  next
    case False
    with Cons.prems obtain k where k: "first_index ts tid = Some k" "i = Suc k"
      by auto
    from Cons.IH [OF k(1)] False k(2) show ?thesis
      by (auto simp: nth_Cons split: nat.splits)
  qed
qed

lemma first_index_distinct:
  "distinct (map TicketID ts) \<Longrightarrow> i < length ts \<Longrightarrow> TicketID (ts ! i) = tid \<Longrightarrow>
     first_index ts tid = Some i"
proof (induction ts arbitrary: i)
  case Nil
  then show ?case by simp
next
  case (Cons t ts)
  show ?case
  proof (cases i)
    case 0
    with Cons.prems show ?thesis by simp
  next
    case (Suc k)
    with Cons.prems have k: "k < length ts" "TicketID (ts ! k) = tid" by simp_all
    then have "tid \<in> TicketID ` set ts" by (metis imageI nth_mem)
    with Cons.prems(1) have "TicketID t \<noteq> tid" by auto
    with Cons.IH [of k] Cons.prems(1) k Suc show ?thesis by simp
  qed
qed

lemma I2_first_index:
  "I2 tickets \<Longrightarrow> i < length tickets \<Longrightarrow> first_index tickets (TicketID (tickets ! i)) = Some i"
  unfolding I2_def by (rule first_index_distinct) simp_all

lemma I2_unique:
  assumes "I2 tickets" "t \<in> set tickets" "t' \<in> set tickets" "TicketID t = TicketID t'"
  shows "t = t'"
  using assms unfolding I2_def by (meson distinct_map inj_onD)

lemma set_update_I:
  assumes "\<forall>t \<in> set ts. P t" and "P v"
  shows "\<forall>t \<in> set (ts[i := v]). P t"
  using assms by (metis insert_iff set_update_subset_insert subsetD)

subsection \<open>What a handler wrote when it wrote\<close>

lemma manual_sale_Inr:
  assumes "manual_sale menu tickets s_type s_cat tid cust now = Inr tickets'"
  obtains idx where "first_index tickets tid = Some idx"
    and "tid \<in> set (avail tickets s_type s_cat)"
    and "tickets' = tickets[idx := (tickets ! idx)
           \<lparr> Sold := True, Customer := cust, Timestamp := Some now \<rparr>]"
  using assms unfolding manual_sale_def
  by (auto split: if_splits option.splits)

lemma reverse_sale_Inr:
  assumes "reverse_sale menu tickets r_type r_cat tid = Inr tickets'"
  obtains idx where "first_index tickets tid = Some idx"
    and "tid \<in> set (sold_tickets tickets r_type r_cat)"
    and "tickets' = tickets[idx := (tickets ! idx)
           \<lparr> Sold := False, Customer := [], Visited := False,
             Visitor_Seats := 0, Timestamp := None \<rparr>]"
  using assms unfolding reverse_sale_def
  by (auto split: if_splits option.splits)

lemma check_in_Inr:
  assumes "check_in tickets tid seats = Inr tickets'"
  obtains idx where "first_index tickets tid = Some idx" and "Sold (tickets ! idx)"
    and "tickets' = tickets[idx := (tickets ! idx)\<lparr> Visited := True, Visitor_Seats := seats \<rparr>]"
  using assms unfolding check_in_def
  by (auto split: if_splits option.splits)

lemma sale_to_Bob:
  "manual_sale sample_menu inventory ''Public'' (Some ''GA'') ''0001'' ''Bob'' ''2024-05-01 10:00:00''
     = Inr sold_inventory"
  by (simp add: sample_defs handler_defs)

subsection \<open>I1 under each handler\<close>

lemma I1_manual_sale:
  assumes inv: "\<forall>t \<in> set tickets. I1 t"
  shows "\<forall>t \<in> set (state_after tickets (manual_sale menu tickets s_type s_cat tid cust now)). I1 t"
proof (cases "manual_sale menu tickets s_type s_cat tid cust now")
  case (Inl e)
  with inv show ?thesis by (simp add: state_after_def)
next
  case (Inr tickets')
  then obtain idx where
    "tickets' = tickets[idx := (tickets ! idx)
       \<lparr> Sold := True, Customer := cust, Timestamp := Some now \<rparr>]"
    by (rule manual_sale_Inr)
  moreover have "I1 ((tickets ! idx)\<lparr> Sold := True, Customer := cust, Timestamp := Some now \<rparr>)"
    by (simp add: I1_def)
  ultimately show ?thesis
    using Inr set_update_I [OF inv] by (simp add: state_after_def)
qed

lemma I1_reverse_sale:
  assumes inv: "\<forall>t \<in> set tickets. I1 t"
  shows "\<forall>t \<in> set (state_after tickets (reverse_sale menu tickets r_type r_cat tid)). I1 t"
proof (cases "reverse_sale menu tickets r_type r_cat tid")
  case (Inl e)
  with inv show ?thesis by (simp add: state_after_def)
next
  case (Inr tickets')
  then obtain idx where
    "tickets' = tickets[idx := (tickets ! idx)
       \<lparr> Sold := False, Customer := [], Visited := False,
         Visitor_Seats := 0, Timestamp := None \<rparr>]"
    by (rule reverse_sale_Inr)
  moreover have "I1 ((tickets ! idx)\<lparr> Sold := False, Customer := [], Visited := False,
                         Visitor_Seats := 0, Timestamp := None \<rparr>)"
    by (simp add: I1_def)
  ultimately show ?thesis
    using Inr set_update_I [OF inv] by (simp add: state_after_def)
qed

lemma I1_check_in:
  assumes inv: "\<forall>t \<in> set tickets. I1 t"
  shows "\<forall>t \<in> set (state_after tickets (check_in tickets tid seats)). I1 t"
proof (cases "check_in tickets tid seats")
  case (Inl e)
  with inv show ?thesis by (simp add: state_after_def)
next
  case (Inr tickets')
  then obtain idx where "Sold (tickets ! idx)"
    "tickets' = tickets[idx := (tickets ! idx)\<lparr> Visited := True, Visitor_Seats := seats \<rparr>]"
    by (rule check_in_Inr)
  moreover from this have "I1 ((tickets ! idx)\<lparr> Visited := True, Visitor_Seats := seats \<rparr>)"
    by (simp add: I1_def)
  ultimately show ?thesis
    using Inr set_update_I [OF inv] by (simp add: state_after_def)
qed

lemma I1_reset_database:
  assumes inv: "\<forall>t \<in> set tickets. I1 t"
  shows "\<forall>t \<in> set (state_after tickets (reset_database tickets secret)). I1 t"
  using inv by (auto simp: reset_database_def state_after_def I1_def)

lemma sold_not_avail:
  assumes "I2 tickets" "t \<in> set tickets" "TicketID t = tid" "Sold t"
  shows "tid \<notin> set (avail tickets s_type s_cat)"
proof
  assume "tid \<in> set (avail tickets s_type s_cat)"
  then obtain t' where "t' \<in> set tickets" "TicketID t' = tid" "\<not> Sold t'"
    by (auto simp: avail_def)
  with assms I2_unique [of tickets t t'] show False by auto
qed

subsection \<open>The groups of the summary\<close>


lemma set_map_filter_Some: "set (List.map_filter f xs) = {y. \<exists>x \<in> set xs. f x = Some y}"
  by (induction xs) (auto split: option.splits)

lemma set_group_keys_of: "set (group_keys_of df) = {k. \<exists>t \<in> set df. group_key t = Some k}"
  by (simp add: group_keys_of_def set_map_filter_Some)

lemma distinct_group_keys_of: "distinct (group_keys_of df)"
  by (simp add: group_keys_of_def)

lemma set_summary:
  "set (summary df) = (\<lambda>k. summary_of_group k (group_rows df k)) ` set (group_keys_of df)"
  by (simp add: summary_def custom_sort_def)

lemma row_keys_summary_of_group: "row_keys (summary_of_group k g) = k"
  by (cases k) (simp add: row_keys_def summary_of_group_def Let_def)



lemma sorted_custom_sort: "sorted (map (\<lambda>r. seq_sort_key (s_Seq r)) (custom_sort rows))"
  by (simp add: custom_sort_def)

lemma summary_seq_0_5_3:
  "summary [ticket_seq ''0001'' (Some 0), ticket_seq ''0002'' (Some 5), ticket_seq ''0003'' (Some 3)] =
     [\<lparr> s_Seq = 3, s_Type = ''Public'', s_Category = ''GA'', s_Admit = 2,
        Total_Tickets = 1, Tickets_Sold = 0, Total_Seats = 2, Seats_sold = 0,
        Total_Visitors = 0, Balance_Tickets = 1, Balance_Seats = 2, Balance_Visitors = 0 \<rparr>,
      \<lparr> s_Seq = 5, s_Type = ''Public'', s_Category = ''GA'', s_Admit = 2,
        Total_Tickets = 1, Tickets_Sold = 0, Total_Seats = 2, Seats_sold = 0,
        Total_Visitors = 0, Balance_Tickets = 1, Balance_Seats = 2, Balance_Visitors = 0 \<rparr>,
      \<lparr> s_Seq = 0, s_Type = ''Public'', s_Category = ''GA'', s_Admit = 2,
        Total_Tickets = 1, Tickets_Sold = 0, Total_Seats = 2, Seats_sold = 0,
        Total_Visitors = 0, Balance_Tickets = 1, Balance_Seats = 2, Balance_Visitors = 0 \<rparr>]"
  by code_simp

subsection \<open>How many tickets the summary counts\<close>

lemma sum_list_insort_key:
  "sum_list (map f (insort_key k x xs)) = f x + sum_list (map f xs)"
  for f :: "'a \<Rightarrow> int"
  by (induction xs) simp_all

lemma sum_list_sort_key:
  "sum_list (map f (sort_key k xs)) = sum_list (map f xs)"
  for f :: "'a \<Rightarrow> int"
  by (induction xs) (simp_all add: sum_list_insort_key)

lemma sum_group_sizes:
  assumes "finite S" and "\<forall>t \<in> set df. \<forall>k. g t = Some k \<longrightarrow> k \<in> S"
  shows "(\<Sum>k\<in>S. int (length (filter (\<lambda>t. g t = Some k) df)))
           = int (length (filter (\<lambda>t. g t \<noteq> None) df))"
  using assms(2)
proof (induction df)
  case Nil
  then show ?case by simp
next
  case (Cons t df)
  then have IH: "(\<Sum>k\<in>S. int (length (filter (\<lambda>t. g t = Some k) df)))
           = int (length (filter (\<lambda>t. g t \<noteq> None) df))"
    by simp
  show ?case
  proof (cases "g t")
    case None
    with IH show ?thesis by simp
  next
    case (Some k0)
    with Cons.prems have "k0 \<in> S" by simp
    have "(\<Sum>k\<in>S. int (length (filter (\<lambda>t. g t = Some k) (t # df))))
        = (\<Sum>k\<in>S. (if k = k0 then 1 else 0) + int (length (filter (\<lambda>t. g t = Some k) df)))"
      using Some by (intro sum.cong) auto
    also have "\<dots> = (\<Sum>k\<in>S. (if k = k0 then 1 else 0))
        + (\<Sum>k\<in>S. int (length (filter (\<lambda>t. g t = Some k) df)))"
      by (simp add: sum.distrib)
    also have "(\<Sum>k\<in>S. (if k = k0 then 1 else 0 :: int)) = 1"
      using assms(1) \<open>k0 \<in> S\<close> by simp
    finally show ?thesis using IH Some by simp
  qed
qed

text \<open>
  The counts of the summary add up to the number of tickets that belong to a group: those
  with no null among \<open>Seq\<close>, \<open>Type\<close> and \<open>Category\<close>.
\<close>

lemma sum_Total_Tickets:
  "sum_list (map Total_Tickets (summary df)) = int (length (filter (\<lambda>t. group_key t \<noteq> None) df))"
proof -
  have tt: "Total_Tickets (summary_of_group k g) = int (length g)" for k g
    by (cases k) (simp add: summary_of_group_def Let_def count_col_def)
  have "sum_list (map Total_Tickets (summary df))
      = sum_list (map (\<lambda>k. int (length (group_rows df k))) (group_keys_of df))"
    by (simp add: summary_def custom_sort_def sum_list_sort_key comp_def tt)
  also have "\<dots> = (\<Sum>k\<in>set (group_keys_of df). int (length (group_rows df k)))"
    using distinct_group_keys_of by (rule sum_list_distinct_conv_sum_set)
  also have "\<dots> = int (length (filter (\<lambda>t. group_key t \<noteq> None) df))"
    unfolding group_rows_def
  proof (rule sum_group_sizes)
    show "finite (set (group_keys_of df))" by (rule finite_set)
    show "\<forall>t \<in> set df. \<forall>k. group_key t = Some k \<longrightarrow> k \<in> set (group_keys_of df)"
      by (auto simp: set_group_keys_of)
  qed
  finally show ?thesis .
qed

lemma non_total_rows_summary_final: "non_total_rows (summary_final df) = summary df"
proof -
  have "non_total_rows (map GroupRow rows @ [TotalRow tot]) = rows" for rows tot
    by (induction rows) simp_all
  then show ?thesis by (simp add: summary_final_def)
qed

subsection \<open>Loading the sample rows\<close>

lemma load_raw_0001: "fst (load_all_data sample_parse ([raw_0001], [])) = [ticket_0001]"
  by code_simp

section \<open>The claims\<close>

text \<open>
  Claim C1, as amended. The rows of the summary are in ascending order of the sort key,
  which is \<open>Seq\<close> itself except that \<open>Seq = 0\<close> has the key 10. So a row with
  \<open>Seq = 0\<close> comes after every row whose \<open>Seq\<close> is below 10 and not 0 (in particular
  after a row with \<open>Seq = 5\<close>), rows with non-zero \<open>Seq\<close> are in ascending order of
  \<open>Seq\<close>, and every ticket that belongs to a group has its row. The key 10 is a fixed
  number, not one above every \<open>Seq\<close> in use.
\<close>

theorem summary_order:
  "sorted (map (\<lambda>r. seq_sort_key (s_Seq r)) (summary df))
   \<and> (\<forall>i<length (summary df). \<forall>j<length (summary df).
         s_Seq (summary df ! i) = 0 \<and> s_Seq (summary df ! j) \<noteq> 0 \<and> s_Seq (summary df ! j) < 10
           \<longrightarrow> j < i)
   \<and> (\<forall>i<length (summary df). \<forall>j<length (summary df).
         s_Seq (summary df ! i) \<noteq> 0 \<and> s_Seq (summary df ! j) \<noteq> 0
           \<and> s_Seq (summary df ! j) < s_Seq (summary df ! i) \<longrightarrow> j < i)
   \<and> (\<forall>t \<in> set df. \<forall>k. group_key t = Some k \<longrightarrow> (\<exists>r \<in> set (summary df). row_keys r = k))"
proof (intro conjI allI impI ballI)
  let ?key = "\<lambda>r. seq_sort_key (s_Seq r)"
  show sorted: "sorted (map ?key (summary df))"
    unfolding summary_def by (rule sorted_custom_sort)
  have before: "j < i" if "i < length (summary df)" "j < length (summary df)"
    "?key (summary df ! j) < ?key (summary df ! i)" for i j
  proof (rule ccontr)
    assume "\<not> j < i"
    then have "i \<le> j" by simp
    with sorted that(2) have "map ?key (summary df) ! i \<le> map ?key (summary df) ! j"
      by (simp add: sorted_iff_nth_mono)
    with that show False by simp
  qed
  {
    fix i j
    assume "i < length (summary df)" "j < length (summary df)"
      "s_Seq (summary df ! i) = 0 \<and> s_Seq (summary df ! j) \<noteq> 0 \<and> s_Seq (summary df ! j) < 10"
    with before [of i j] show "j < i" by (simp add: seq_sort_key_def)
  }
  {
    fix i j
    assume "i < length (summary df)" "j < length (summary df)"
      "s_Seq (summary df ! i) \<noteq> 0 \<and> s_Seq (summary df ! j) \<noteq> 0
           \<and> s_Seq (summary df ! j) < s_Seq (summary df ! i)"
    with before [of i j] show "j < i" by (simp add: seq_sort_key_def)
  }
  {
    fix t k
    assume "t \<in> set df" "group_key t = Some k"
    then have "k \<in> set (group_keys_of df)" by (auto simp: set_group_keys_of)
    then have "summary_of_group k (group_rows df k) \<in> set (summary df)"
      by (simp add: set_summary)
    then show "\<exists>r \<in> set (summary df). row_keys r = k"
      using row_keys_summary_of_group by blast
  }
qed

text \<open>
  Groups with \<open>Seq\<close> 0, 5 and 3: the rows come in the order 3, 5, 0, and the ticket with
  \<open>Seq = 0\<close> has its row.
\<close>

theorem summary_order_witness:
  "map s_Seq (summary [ticket_seq ''0001'' (Some 0), ticket_seq ''0002'' (Some 5),
                       ticket_seq ''0003'' (Some 3)]) = [3, 5, 0]
   \<and> sorted (map (\<lambda>r. seq_sort_key (s_Seq r))
        (summary [ticket_seq ''0001'' (Some 0), ticket_seq ''0002'' (Some 5),
                  ticket_seq ''0003'' (Some 3)]))
   \<and> (1::nat) < 2 \<and> (0::nat) < 1
   \<and> (\<exists>r \<in> set (summary [ticket_seq ''0001'' (Some 0), ticket_seq ''0002'' (Some 5),
                               ticket_seq ''0003'' (Some 3)]).
         row_keys r = (0, ''Public'', ''GA'', 2))"
proof -
  let ?df = "[ticket_seq ''0001'' (Some 0), ticket_seq ''0002'' (Some 5), ticket_seq ''0003'' (Some 3)]"
  have seqs: "length (summary ?df) = 3" "s_Seq (summary ?df ! 2) = 0" "s_Seq (summary ?df ! 1) = 5"
    "s_Seq (summary ?df ! 0) = 3"
    by (simp_all add: summary_seq_0_5_3)
  have t: "ticket_seq ''0001'' (Some 0) \<in> set ?df"
    "group_key (ticket_seq ''0001'' (Some 0)) = Some (0, ''Public'', ''GA'', 2)"
    by (simp_all add: group_key_def ticket_seq_def ticket_0001_def)
  from summary_order [of ?df] have
    "sorted (map (\<lambda>r. seq_sort_key (s_Seq r)) (summary ?df))"
    and zero: "\<forall>i<length (summary ?df). \<forall>j<length (summary ?df).
         s_Seq (summary ?df ! i) = 0 \<and> s_Seq (summary ?df ! j) \<noteq> 0 \<and> s_Seq (summary ?df ! j) < 10
           \<longrightarrow> j < i"
    and asc: "\<forall>i<length (summary ?df). \<forall>j<length (summary ?df).
         s_Seq (summary ?df ! i) \<noteq> 0 \<and> s_Seq (summary ?df ! j) \<noteq> 0
           \<and> s_Seq (summary ?df ! j) < s_Seq (summary ?df ! i) \<longrightarrow> j < i"
    and rows: "\<forall>t \<in> set ?df. \<forall>k. group_key t = Some k \<longrightarrow> (\<exists>r \<in> set (summary ?df). row_keys r = k)"
    by blast+
  moreover from zero seqs have "(1::nat) < 2" by simp
  moreover from asc seqs have "(0::nat) < 1" by simp
  moreover from rows t have "\<exists>r \<in> set (summary ?df). row_keys r = (0, ''Public'', ''GA'', 2)"
    by blast
  moreover have "map s_Seq (summary ?df) = [3, 5, 0]" by (simp add: summary_seq_0_5_3)
  ultimately show ?thesis by blast
qed

text \<open>
  Claim C1 as stated fails: with a group of \<open>Seq = 0\<close> and a group of \<open>Seq = 11\<close>, the
  row with \<open>Seq = 0\<close> (key 10) comes before the row with the positive \<open>Seq\<close> 11.
\<close>

theorem summary_seq0_before_seq11:
  "map s_Seq (summary [ticket_seq ''0001'' (Some 0), ticket_seq ''0002'' (Some 11)]) = [0, 11]"
  by code_simp

text \<open>
  Claim C2 at a failing input. Of two tickets, the second has no \<open>Seq\<close>. The summary has
  one row, for the group of the first ticket, and its \<open>Total_Tickets\<close> cells add up to 1,
  while the table holds 2 tickets: the ticket without \<open>Seq\<close> is covered by no row.
\<close>

theorem summary_misses_ticket_without_Seq:
  "sum_list (map Total_Tickets
      (non_total_rows (summary_final [ticket_seq ''0001'' (Some 1), ticket_seq ''0002'' None]))) = 1
   \<and> length [ticket_seq ''0001'' (Some 1), ticket_seq ''0002'' None] = 2
   \<and> map row_keys (non_total_rows (summary_final [ticket_seq ''0001'' (Some 1), ticket_seq ''0002'' None]))
       = [(1, ''Public'', ''GA'', 2)]"
  by code_simp

text \<open>
  Claim C3. Invariant I1 (an unsold ticket has an empty customer, is not visited, has no
  visitor seats and no timestamp) holds for every ticket after a sale, a reversal, a
  check-in and a reset, provided it held for every ticket before. \<open>state_after\<close> is the
  table after the handler, whether it wrote or refused.
\<close>

theorem I1_preserved:
  assumes "\<forall>t \<in> set tickets. I1 t"
  shows "(\<forall>t \<in> set (state_after tickets (manual_sale menu tickets s_type s_cat s_tid cust now)). I1 t)
    \<and> (\<forall>t \<in> set (state_after tickets (reverse_sale menu tickets r_type r_cat r_tid)). I1 t)
    \<and> (\<forall>t \<in> set (state_after tickets (check_in tickets v_tid seats)). I1 t)
    \<and> (\<forall>t \<in> set (state_after tickets (reset_database tickets secret)). I1 t)"
  by (intro conjI I1_manual_sale I1_reverse_sale I1_check_in I1_reset_database assms)

text \<open>
  On the inventory in which 0001 is sold, each of the four handlers writes the table, and
  I1 holds in what it wrote.
\<close>

theorem I1_preserved_witness:
  "list_all I1 sold_inventory
   \<and> manual_sale sample_menu sold_inventory ''Public'' (Some ''GA'') ''0002'' ''Dan'' ''2024-05-01 12:00:00''
       = Inr [sold_inventory ! 0,
              ticket_0002 \<lparr> Sold := True, Customer := ''Dan'', Timestamp := Some ''2024-05-01 12:00:00'' \<rparr>]
   \<and> list_all I1 (state_after sold_inventory
        (manual_sale sample_menu sold_inventory ''Public'' (Some ''GA'') ''0002'' ''Dan'' ''2024-05-01 12:00:00''))
   \<and> reverse_sale sample_menu sold_inventory ''Public'' (Some ''GA'') ''0001'' = Inr inventory
   \<and> list_all I1 (state_after sold_inventory
        (reverse_sale sample_menu sold_inventory ''Public'' (Some ''GA'') ''0001''))
   \<and> check_in sold_inventory ''0001'' 2
       = Inr [(sold_inventory ! 0) \<lparr> Visited := True, Visitor_Seats := 2 \<rparr>, ticket_0002]
   \<and> list_all I1 (state_after sold_inventory (check_in sold_inventory ''0001'' 2))
   \<and> reset_database sold_inventory ''admin123'' = Inr inventory
   \<and> list_all I1 (state_after sold_inventory (reset_database sold_inventory ''admin123''))"
proof -
  have inv: "\<forall>t \<in> set sold_inventory. I1 t" by (simp add: I1_def sample_defs)
  have ops:
    "manual_sale sample_menu sold_inventory ''Public'' (Some ''GA'') ''0002'' ''Dan'' ''2024-05-01 12:00:00''
       = Inr [sold_inventory ! 0,
              ticket_0002 \<lparr> Sold := True, Customer := ''Dan'', Timestamp := Some ''2024-05-01 12:00:00'' \<rparr>]"
    "reverse_sale sample_menu sold_inventory ''Public'' (Some ''GA'') ''0001'' = Inr inventory"
    "check_in sold_inventory ''0001'' 2
       = Inr [(sold_inventory ! 0) \<lparr> Visited := True, Visitor_Seats := 2 \<rparr>, ticket_0002]"
    "reset_database sold_inventory ''admin123'' = Inr inventory"
    by (simp_all add: sample_defs handler_defs check_in_def reset_database_def)
  from I1_preserved [OF inv, of sample_menu "''Public''" "Some ''GA''" "''0002''" "''Dan''"
      "''2024-05-01 12:00:00''" "''Public''" "Some ''GA''" "''0001''" "''0001''" 2 "''admin123''"]
  show ?thesis using inv ops by (simp add: list_all_iff)
qed

text \<open>
  Claim C4. Reversal is a left inverse of sale. Let a ticket be unsold and satisfy I1, in
  an inventory with unique identifiers, and let its type and category be ones the sale
  form offers. Then the sale is written and marks the ticket sold to the customer, the
  reversal of the same ticket is written, and afterwards \<open>Sold\<close>, \<open>Customer\<close>,
  \<open>Visited\<close>, \<open>Visitor_Seats\<close> and \<open>Timestamp\<close> of the ticket have their values from
  before the sale, the unsold baseline; indeed the whole table is as before.
\<close>

theorem reverse_undoes_sale:
  assumes I2: "I2 tickets" and i: "i < length tickets"
    and unsold: "\<not> Sold (tickets ! i)" and I1: "I1 (tickets ! i)"
    and ty: "Type (tickets ! i) = Some ty" "ty \<in> {''Public'', ''Guest''}"
    and cat: "Category (tickets ! i) = Some cat" "Some cat \<in> set (menu_categories menu ty)"
  shows "\<exists>tickets1 tickets2.
           manual_sale menu tickets ty (Some cat) (TicketID (tickets ! i)) cust now = Inr tickets1
         \<and> Sold (tickets1 ! i) \<and> Customer (tickets1 ! i) = cust \<and> Timestamp (tickets1 ! i) = Some now
         \<and> reverse_sale menu tickets1 ty (Some cat) (TicketID (tickets ! i)) = Inr tickets2
         \<and> Sold (tickets2 ! i) = Sold (tickets ! i)
         \<and> Customer (tickets2 ! i) = Customer (tickets ! i)
         \<and> Visited (tickets2 ! i) = Visited (tickets ! i)
         \<and> Visitor_Seats (tickets2 ! i) = Visitor_Seats (tickets ! i)
         \<and> Timestamp (tickets2 ! i) = Timestamp (tickets ! i)
         \<and> baseline (tickets2 ! i)
         \<and> tickets2 = tickets"
proof -
  let ?t = "tickets ! i"
  let ?tid = "TicketID ?t"
  let ?t1 = "?t\<lparr> Sold := True, Customer := cust, Timestamp := Some now \<rparr>"
  let ?tickets1 = "tickets[i := ?t1]"
  have mem: "?t \<in> set tickets" using i by simp
  have sel: "selectbox (menu_categories menu ty) (Some cat)"
    using cat(2) by (auto simp: selectbox_def)
  have base: "baseline ?t" using unsold I1 by (simp add: I1_def baseline_def)
  have "?t \<in> set (filter (\<lambda>t. cell_eq (Type t) (Some ty) \<and> cell_eq (Category t) (Some cat)
                              \<and> \<not> Sold t) tickets)"
    using mem unsold ty(1) cat(1) by (simp add: cell_eq_def)
  then have "?tid \<in> set (avail tickets ty (Some cat))"
    unfolding avail_def set_map by (rule imageI)
  moreover have "first_index tickets ?tid = Some i" using I2 i by (rule I2_first_index)
  ultimately have sale: "manual_sale menu tickets ty (Some cat) ?tid cust now = Inr ?tickets1"
    using ty(2) sel by (auto simp: manual_sale_def)
  have ids: "map TicketID ?tickets1 = map TicketID tickets"
    using i by (simp add: map_update list_update_same_conv)
  have "?t1 \<in> set ?tickets1" using i by (simp add: set_update_memI)
  then have "?t1 \<in> set (filter (\<lambda>t. cell_eq (Type t) (Some ty) \<and> cell_eq (Category t) (Some cat)
                                   \<and> Sold t) ?tickets1)"
    using ty(1) cat(1) by (simp add: cell_eq_def)
  then have "TicketID ?t1 \<in> set (sold_tickets ?tickets1 ty (Some cat))"
    unfolding sold_tickets_def set_map by (rule imageI)
  then have "?tid \<in> set (sold_tickets ?tickets1 ty (Some cat))" by simp
  moreover have "first_index ?tickets1 ?tid = Some i"
    using I2 i ids I2_first_index [of ?tickets1 i] by (simp add: I2_def)
  moreover have "?t1\<lparr> Sold := False, Customer := [], Visited := False,
                         Visitor_Seats := 0, Timestamp := None \<rparr> = ?t"
    using base by (simp add: baseline_def)
  ultimately have rev: "reverse_sale menu ?tickets1 ty (Some cat) ?tid = Inr tickets"
    using ty(2) sel i by (auto simp: reverse_sale_def list_update_same_conv)
  from sale rev base i show ?thesis by simp
qed

text \<open>Ticket 0001 of the sample inventory, sold to Alice and reversed.\<close>

theorem reverse_undoes_sale_witness:
  "manual_sale sample_menu inventory ''Public'' (Some ''GA'') ''0001'' ''Alice'' ''2024-05-01 10:00:00''
     = Inr [ticket_0001 \<lparr> Sold := True, Customer := ''Alice'', Timestamp := Some ''2024-05-01 10:00:00'' \<rparr>,
            ticket_0002]
   \<and> reverse_sale sample_menu
        [ticket_0001 \<lparr> Sold := True, Customer := ''Alice'', Timestamp := Some ''2024-05-01 10:00:00'' \<rparr>,
         ticket_0002]
        ''Public'' (Some ''GA'') ''0001''
     = Inr inventory"
proof -
  have "I2 inventory" by (simp add: I2_def sample_defs)
  moreover have "0 < length inventory" by (simp add: sample_defs)
  moreover have "\<not> Sold (inventory ! 0)" by (simp add: sample_defs)
  moreover have "I1 (inventory ! 0)" by (simp add: I1_def sample_defs)
  moreover have "Type (inventory ! 0) = Some ''Public''" by (simp add: sample_defs)
  moreover have "''Public'' \<in> {''Public'', ''Guest''}" by simp
  moreover have "Category (inventory ! 0) = Some ''GA''" by (simp add: sample_defs)
  moreover have "Some ''GA'' \<in> set (menu_categories sample_menu ''Public'')"
    by (simp add: sample_defs menu_categories_def cell_eq_def)
  ultimately have "\<exists>tickets1 tickets2.
           manual_sale sample_menu inventory ''Public'' (Some ''GA'') (TicketID (inventory ! 0))
             ''Alice'' ''2024-05-01 10:00:00'' = Inr tickets1
         \<and> Sold (tickets1 ! 0) \<and> Customer (tickets1 ! 0) = ''Alice''
         \<and> Timestamp (tickets1 ! 0) = Some ''2024-05-01 10:00:00''
         \<and> reverse_sale sample_menu tickets1 ''Public'' (Some ''GA'') (TicketID (inventory ! 0)) = Inr tickets2
         \<and> Sold (tickets2 ! 0) = Sold (inventory ! 0)
         \<and> Customer (tickets2 ! 0) = Customer (inventory ! 0)
         \<and> Visited (tickets2 ! 0) = Visited (inventory ! 0)
         \<and> Visitor_Seats (tickets2 ! 0) = Visitor_Seats (inventory ! 0)
         \<and> Timestamp (tickets2 ! 0) = Timestamp (inventory ! 0)
         \<and> baseline (tickets2 ! 0)
         \<and> tickets2 = inventory"
    by (rule reverse_undoes_sale)
  moreover have "TicketID (inventory ! 0) = ''0001''" by (simp add: sample_defs)
  moreover have "manual_sale sample_menu inventory ''Public'' (Some ''GA'') ''0001'' ''Alice'' ''2024-05-01 10:00:00''
     = Inr [ticket_0001 \<lparr> Sold := True, Customer := ''Alice'', Timestamp := Some ''2024-05-01 10:00:00'' \<rparr>,
            ticket_0002]"
    by (simp add: sample_defs handler_defs)
  ultimately show ?thesis by auto
qed

text \<open>
  Claim C5. In an inventory with unique identifiers, the sale of a ticket whose \<open>Sold\<close>
  flag is true is refused and the table stays as it was. The script has no error named
  AlreadySold: a sold ticket is not among the options of the ticket box (\<open>avail\<close> keeps
  unsold tickets only), or the form is replaced by the notice that the category has no
  available ticket.
\<close>

theorem sell_sold_rejected:
  assumes "I2 tickets" "t \<in> set tickets" "TicketID t = tid" "Sold t"
  shows "manual_sale menu tickets s_type s_cat tid cust now \<in> {Inl NotAnOption, Inl NoAvailableTickets}
    \<and> state_after tickets (manual_sale menu tickets s_type s_cat tid cust now) = tickets"
  using sold_not_avail [OF assms, of s_type s_cat]
  by (auto simp: manual_sale_def state_after_def)

text \<open>
  The scenario of the specification: 0001 is sold to Bob, then offered to Carol; the
  second sale is refused and the customer of 0001 remains Bob.
\<close>

theorem sell_sold_rejected_witness:
  "manual_sale sample_menu inventory ''Public'' (Some ''GA'') ''0001'' ''Bob'' ''2024-05-01 10:00:00''
     = Inr sold_inventory
   \<and> manual_sale sample_menu sold_inventory ''Public'' (Some ''GA'') ''0001'' ''Carol'' ''2024-05-01 11:00:00''
     = Inl NotAnOption
   \<and> state_after sold_inventory
        (manual_sale sample_menu sold_inventory ''Public'' (Some ''GA'') ''0001'' ''Carol'' ''2024-05-01 11:00:00'')
     = sold_inventory
   \<and> map Customer sold_inventory = [''Bob'', [] ]"
proof -
  have "I2 sold_inventory" by (simp add: I2_def sample_defs)
  moreover have "sold_inventory ! 0 \<in> set sold_inventory" by (simp add: sample_defs)
  moreover have "TicketID (sold_inventory ! 0) = ''0001''" by (simp add: sample_defs)
  moreover have "Sold (sold_inventory ! 0)" by (simp add: sample_defs)
  ultimately have "manual_sale sample_menu sold_inventory ''Public'' (Some ''GA'') ''0001'' ''Carol'' ''2024-05-01 11:00:00''
      \<in> {Inl NotAnOption, Inl NoAvailableTickets}
    \<and> state_after sold_inventory
        (manual_sale sample_menu sold_inventory ''Public'' (Some ''GA'') ''0001'' ''Carol'' ''2024-05-01 11:00:00'')
      = sold_inventory"
    by (rule sell_sold_rejected)
  moreover have "manual_sale sample_menu sold_inventory ''Public'' (Some ''GA'') ''0001'' ''Carol'' ''2024-05-01 11:00:00''
     = Inl NotAnOption"
    by (simp add: sample_defs handler_defs)
  moreover have "map Customer sold_inventory = [''Bob'', [] ]" by (simp add: sample_defs)
  ultimately show ?thesis using sale_to_Bob by simp
qed



text \<open>
  Claim C7, as amended. After loading, the \<open>Admit\<close> of every ticket is a number: a null
  cell and a text that is no number become 1, and a number (or a numeric text) is kept as
  it is, whatever its sign. So I3 holds for a loaded ticket exactly when its \<open>Admit\<close> cell,
  if numeric, was at least 1; the loader does not make it so.
\<close>

theorem load_admit:
  assumes "i < length raw"
  shows "(let t = fst (load_all_data parse (raw, menu)) ! i; a = raw_Admit (raw ! i)
          in (a = CNull \<longrightarrow> Admit t = 1)
           \<and> (\<forall>s. a = CText s \<and> parse s = None \<longrightarrow> Admit t = 1)
           \<and> (\<forall>s n. a = CText s \<and> parse s = Some n \<longrightarrow> Admit t = n)
           \<and> (\<forall>n. a = CNum n \<longrightarrow> Admit t = n)
           \<and> (I3 t \<longleftrightarrow> (\<forall>n. to_numeric parse a = Some n \<longrightarrow> 1 \<le> n)))"
  using assms
  by (auto simp: load_all_data_def normalize_row_def fillna_def to_numeric_def I3_def Let_def
      split: cell.splits option.splits)

text \<open>The four sample rows load with \<open>Admit\<close> 1, 1, 3 and 0.\<close>

theorem load_admit_witness:
  "map Admit (fst (load_all_data sample_parse (raw_rows, []))) = [1, 1, 3, 0]
   \<and> map TicketID (fst (load_all_data sample_parse (raw_rows, []))) = [''0001'', ''0002'', ''0003'', ''0004'']
   \<and> I3 (fst (load_all_data sample_parse (raw_rows, [])) ! 0)
   \<and> I3 (fst (load_all_data sample_parse (raw_rows, [])) ! 1)
   \<and> I3 (fst (load_all_data sample_parse (raw_rows, [])) ! 2)"
proof -
  have len: "0 < length raw_rows" "1 < length raw_rows" "2 < length raw_rows" "3 < length raw_rows"
    by (simp_all add: raw_rows_def)
  have cells: "raw_Admit (raw_rows ! 0) = CNull" "raw_Admit (raw_rows ! 1) = CText ''two''"
    "raw_Admit (raw_rows ! 2) = CText ''3''" "raw_Admit (raw_rows ! 3) = CNum 0"
    "sample_parse ''two'' = None" "sample_parse ''3'' = Some 3"
    by (simp_all add: raw_rows_def raw_0001_def sample_parse_def)
  have ids: "map TicketID (fst (load_all_data sample_parse (raw_rows, [])))
      = [''0001'', ''0002'', ''0003'', ''0004'']"
    by code_simp
  have n: "length (fst (load_all_data sample_parse (raw_rows, []))) = 4"
    by (simp add: load_all_data_def raw_rows_def)
  from load_admit [OF len(1), of sample_parse "[]"] load_admit [OF len(2), of sample_parse "[]"]
    load_admit [OF len(3), of sample_parse "[]"] load_admit [OF len(4), of sample_parse "[]"] cells
  have "Admit (fst (load_all_data sample_parse (raw_rows, [])) ! 0) = 1"
    "Admit (fst (load_all_data sample_parse (raw_rows, [])) ! 1) = 1"
    "Admit (fst (load_all_data sample_parse (raw_rows, [])) ! 2) = 3"
    "Admit (fst (load_all_data sample_parse (raw_rows, [])) ! 3) = 0"
    "I3 (fst (load_all_data sample_parse (raw_rows, [])) ! 0)"
    "I3 (fst (load_all_data sample_parse (raw_rows, [])) ! 1)"
    "I3 (fst (load_all_data sample_parse (raw_rows, [])) ! 2)"
    by (simp_all add: Let_def to_numeric_def)
  with n ids show ?thesis
    by (simp add: list_eq_iff_nth_eq nth_Cons' less_Suc_eq numeral_eq_Suc)
qed

text \<open>
  Claim C7 as stated fails: a row whose \<open>Admit\<close> cell is the number 0 loads with
  \<open>Admit = 0\<close>, which violates I3.
\<close>

theorem load_admit_zero:
  "Admit (fst (load_all_data sample_parse (raw_rows, [])) ! 3) = 0
   \<and> \<not> I3 (fst (load_all_data sample_parse (raw_rows, [])) ! 3)"
  by (simp add: load_all_data_def normalize_row_def fillna_def to_numeric_def I3_def raw_rows_def
      raw_0001_def)

text \<open>
  Claim C8. A reset with a password other than the configured one (\<^verbatim>\<open>admin123\<close>) is
  refused with the message "Incorrect Admin Password" and changes nothing; with that
  password every ticket is set to the unsold baseline, its other fields kept.
\<close>

theorem reset_database_secret:
  "(secret \<noteq> ''admin123'' \<longrightarrow>
      reset_database tickets secret = Inl IncorrectAdminPassword
      \<and> state_after tickets (reset_database tickets secret) = tickets)
   \<and> (secret = ''admin123'' \<longrightarrow>
      (\<exists>tickets'. reset_database tickets secret = Inr tickets'
         \<and> length tickets' = length tickets
         \<and> (\<forall>i<length tickets. baseline (tickets' ! i)
               \<and> tickets' ! i = (tickets ! i)\<lparr> Sold := False, Visited := False, Customer := [],
                      Visitor_Seats := 0, Timestamp := None \<rparr>)))"
  by (simp add: reset_database_def state_after_def baseline_def)

theorem reset_database_secret_witness:
  "reset_database sold_inventory ''wrong-secret'' = Inl IncorrectAdminPassword
   \<and> state_after sold_inventory (reset_database sold_inventory ''wrong-secret'') = sold_inventory
   \<and> reset_database sold_inventory ''admin123'' = Inr inventory"
  using reset_database_secret [of "''wrong-secret''" sold_inventory]
    reset_database_secret [of "''admin123''" sold_inventory]
  by (simp add: reset_database_def sold_inventory_def inventory_def ticket_0001_def ticket_0002_def)



text \<open>
  Claim C10. A sale and a reversal change only the ticket with the given identifier: the
  table keeps its length, and every row whose \<open>TicketID\<close> differs from the identifier is
  the same record afterwards. (With unique identifiers that leaves one row that may
  change; the statement does not need the uniqueness.)
\<close>

theorem sale_frame:
  "(manual_sale menu tickets s_type s_cat tid cust now = Inr tickets' \<longrightarrow>
      length tickets' = length tickets
      \<and> (\<forall>i<length tickets. TicketID (tickets ! i) \<noteq> tid \<longrightarrow> tickets' ! i = tickets ! i))
   \<and> (reverse_sale menu tickets r_type r_cat r_tid = Inr tickets'' \<longrightarrow>
      length tickets'' = length tickets
      \<and> (\<forall>i<length tickets. TicketID (tickets ! i) \<noteq> r_tid \<longrightarrow> tickets'' ! i = tickets ! i))"
proof (intro conjI impI allI)
  assume "manual_sale menu tickets s_type s_cat tid cust now = Inr tickets'"
  then obtain idx where idx: "first_index tickets tid = Some idx"
    and upd: "tickets' = tickets[idx := (tickets ! idx)
                \<lparr> Sold := True, Customer := cust, Timestamp := Some now \<rparr>]"
    by (rule manual_sale_Inr)
  from upd show "length tickets' = length tickets" by simp
  fix i assume "i < length tickets" "TicketID (tickets ! i) \<noteq> tid"
  with first_index_Some [OF idx] have "i \<noteq> idx" by auto
  with upd show "tickets' ! i = tickets ! i" by simp
next
  assume "reverse_sale menu tickets r_type r_cat r_tid = Inr tickets''"
  then obtain idx where idx: "first_index tickets r_tid = Some idx"
    and upd: "tickets'' = tickets[idx := (tickets ! idx)
                \<lparr> Sold := False, Customer := [], Visited := False,
                  Visitor_Seats := 0, Timestamp := None \<rparr>]"
    by (rule reverse_sale_Inr)
  from upd show "length tickets'' = length tickets" by simp
  fix i assume "i < length tickets" "TicketID (tickets ! i) \<noteq> r_tid"
  with first_index_Some [OF idx] have "i \<noteq> idx" by auto
  with upd show "tickets'' ! i = tickets ! i" by simp
qed

text \<open>Selling and reversing 0001 in the sample inventory leaves 0002 as it was.\<close>

theorem sale_frame_witness:
  "manual_sale sample_menu inventory ''Public'' (Some ''GA'') ''0001'' ''Bob'' ''2024-05-01 10:00:00''
     = Inr sold_inventory
   \<and> length sold_inventory = length inventory
   \<and> sold_inventory ! 1 = inventory ! 1
   \<and> reverse_sale sample_menu sold_inventory ''Public'' (Some ''GA'') ''0001'' = Inr inventory
   \<and> length inventory = length sold_inventory
   \<and> inventory ! 1 = sold_inventory ! 1"
proof -
  have s: "manual_sale sample_menu inventory ''Public'' (Some ''GA'') ''0001'' ''Bob'' ''2024-05-01 10:00:00''
     = Inr sold_inventory"
    by (rule sale_to_Bob)
  have r: "reverse_sale sample_menu sold_inventory ''Public'' (Some ''GA'') ''0001'' = Inr inventory"
    by (simp add: sample_defs handler_defs)
  have one: "1 < length inventory" "1 < length sold_inventory"
    "TicketID (inventory ! 1) \<noteq> ''0001''" "TicketID (sold_inventory ! 1) \<noteq> ''0001''"
    by (simp_all add: sample_defs)
  from sale_frame [of sample_menu inventory "''Public''" "Some ''GA''" "''0001''" "''Bob''"
      "''2024-05-01 10:00:00''" sold_inventory "''Public''" "Some ''GA''" "''0001''" "[]"] s one
  have "length sold_inventory = length inventory \<and> sold_inventory ! 1 = inventory ! 1"
    by simp
  moreover
  from sale_frame [of sample_menu sold_inventory "''Public''" "Some ''GA''" "''0001''" "''Bob''"
      "''2024-05-01 10:00:00''" "[]" "''Public''" "Some ''GA''" "''0001''" inventory] r one
  have "length inventory = length sold_inventory \<and> inventory ! 1 = sold_inventory ! 1"
    by simp
  ultimately show ?thesis using s r by simp
qed

end
